theory Spec2Isabelle
  imports Main "HOL-Library.Word"
begin

section \<open>The C++ interface of AoO (lib/aoo/aoo.hpp)\<close>

text \<open>
  The header declares two abstract classes, \<open>aoo::isource\<close> and \<open>aoo::isink\<close>. Their
  engine functions (\<open>setup\<close>, \<open>process\<close>, \<open>send\<close>, \<open>handle_message\<close>, ...) and the four
  option functions are pure virtual; the header itself defines the inline option helpers,
  the static \<open>create\<close> and \<open>destroy\<close> functions and the \<open>deleter\<close> classes. Those are
  embedded here.
\<close>

subsection \<open>Types of the C interface used by the header\<close>

type_synonym int32 = "32 word"

text \<open>An endpoint is an opaque \<open>void *\<close>: only its address is ever passed on.\<close>

type_synonym endpoint = nat

text \<open>
  The option opcodes are enumeration constants of \<open>aoo.h\<close>; these are the ones that
  \<open>aoo.hpp\<close> names.
\<close>

datatype aoo_opt =
    aoo_opt_format
  | aoo_opt_reset
  | aoo_opt_buffersize
  | aoo_opt_timefilter_bandwidth
  | aoo_opt_packetsize
  | aoo_opt_resend_buffersize
  | aoo_opt_channelonset
  | aoo_opt_ping_interval
  | aoo_opt_resend_limit
  | aoo_opt_resend_interval
  | aoo_opt_resend_maxnumframes

text \<open>
  \<open>float\<close>, \<open>aoo_format\<close> and \<open>aoo_format_storage\<close> values are only handed through by
  the helpers, never inspected, so they stay opaque.
\<close>

typedecl c_float
typedecl aoo_format
typedecl aoo_format_storage

text \<open>
  The option functions take \<open>(void *ptr, int32_t size)\<close>. The helpers build that pair
  with the macros \<open>AOO_ARG(x)\<close> (the address of \<open>x\<close> and \<open>sizeof(x)\<close>) and
  \<open>AOO_ARGNULL\<close> (no object). An \<open>arg\<close> is the object behind the pointer; its
  constructor stands for the static type that fixes \<open>size\<close>.
\<close>

datatype arg =
    AOO_ARGNULL
  | AOO_ARG_int32 int32
  | AOO_ARG_float c_float
  | AOO_ARG_format aoo_format
  | AOO_ARG_format_storage aoo_format_storage

text \<open>
  A call of an option function returns its \<open>int32_t\<close> result, leaves an object behind
  the pointer, and changes the state \<open>'s\<close> of the instance.
\<close>

type_synonym 's option_call = "'s \<Rightarrow> (int32 \<times> arg) \<times> 's"

text \<open>
  A helper that takes its parameter by value hands the address of its own copy to the
  option function: what is left in that copy is lost when the helper returns.
\<close>

definition by_value :: "(int32 \<times> arg) \<times> 's \<Rightarrow> int32 \<times> 's" where
  "by_value r = (fst (fst r), snd r)"

subsection \<open>class isource\<close>

text \<open>The pure virtual option functions of \<open>isource\<close>: an implementation supplies them.\<close>

record 's isource =
  isource_set_option :: "aoo_opt \<Rightarrow> arg \<Rightarrow> 's option_call"
  isource_get_option :: "aoo_opt \<Rightarrow> arg \<Rightarrow> 's option_call"
  isource_set_sinkoption :: "endpoint \<Rightarrow> int32 \<Rightarrow> aoo_opt \<Rightarrow> arg \<Rightarrow> 's option_call"
  isource_get_sinkoption :: "endpoint \<Rightarrow> int32 \<Rightarrow> aoo_opt \<Rightarrow> arg \<Rightarrow> 's option_call"

definition isource_set_format :: "'s isource \<Rightarrow> aoo_format \<Rightarrow> 's option_call" where
  "isource_set_format x f = isource_set_option x aoo_opt_format (AOO_ARG_format f)"

definition isource_get_format :: "'s isource \<Rightarrow> aoo_format_storage \<Rightarrow> 's option_call" where
  "isource_get_format x f = isource_get_option x aoo_opt_format (AOO_ARG_format_storage f)"

definition isource_set_buffersize :: "'s isource \<Rightarrow> int32 \<Rightarrow> 's \<Rightarrow> int32 \<times> 's" where
  "isource_set_buffersize x n s =
     by_value (isource_set_option x aoo_opt_buffersize (AOO_ARG_int32 n) s)"

definition isource_get_buffersize :: "'s isource \<Rightarrow> int32 \<Rightarrow> 's option_call" where
  "isource_get_buffersize x n = isource_get_option x aoo_opt_buffersize (AOO_ARG_int32 n)"

definition isource_set_timefilter_bandwidth ::
  "'s isource \<Rightarrow> c_float \<Rightarrow> 's \<Rightarrow> int32 \<times> 's" where
  "isource_set_timefilter_bandwidth x f s =
     by_value (isource_set_option x aoo_opt_timefilter_bandwidth (AOO_ARG_float f) s)"

definition isource_get_timefilter_bandwidth ::
  "'s isource \<Rightarrow> c_float \<Rightarrow> 's option_call" where
  "isource_get_timefilter_bandwidth x f =
     isource_get_option x aoo_opt_timefilter_bandwidth (AOO_ARG_float f)"

definition isource_set_packetsize :: "'s isource \<Rightarrow> int32 \<Rightarrow> 's \<Rightarrow> int32 \<times> 's" where
  "isource_set_packetsize x n s =
     by_value (isource_set_option x aoo_opt_packetsize (AOO_ARG_int32 n) s)"

definition isource_get_packetsize :: "'s isource \<Rightarrow> int32 \<Rightarrow> 's option_call" where
  "isource_get_packetsize x n = isource_get_option x aoo_opt_packetsize (AOO_ARG_int32 n)"

text \<open>The overload \<open>int32_t set_resend_buffersize(int32_t n)\<close>.\<close>

definition isource_set_resend_buffersize :: "'s isource \<Rightarrow> int32 \<Rightarrow> 's \<Rightarrow> int32 \<times> 's" where
  "isource_set_resend_buffersize x n s =
     by_value (isource_set_option x aoo_opt_resend_buffersize (AOO_ARG_int32 n) s)"

text \<open>The overload \<open>int32_t set_resend_buffersize(int32_t& n)\<close>: its body calls \<open>get_option\<close>.\<close>

definition isource_set_resend_buffersize_ref :: "'s isource \<Rightarrow> int32 \<Rightarrow> 's option_call" where
  "isource_set_resend_buffersize_ref x n =
     isource_get_option x aoo_opt_resend_buffersize (AOO_ARG_int32 n)"

definition isource_set_sink_channelonset ::
  "'s isource \<Rightarrow> endpoint \<Rightarrow> int32 \<Rightarrow> int32 \<Rightarrow> 's \<Rightarrow> int32 \<times> 's" where
  "isource_set_sink_channelonset x ep i onset s =
     by_value (isource_set_sinkoption x ep i aoo_opt_channelonset (AOO_ARG_int32 onset) s)"

definition isource_get_sink_channelonset ::
  "'s isource \<Rightarrow> endpoint \<Rightarrow> int32 \<Rightarrow> int32 \<Rightarrow> 's option_call" where
  "isource_get_sink_channelonset x ep i onset =
     isource_get_sinkoption x ep i aoo_opt_channelonset (AOO_ARG_int32 onset)"

subsection \<open>class isink\<close>

record 's isink =
  isink_set_option :: "aoo_opt \<Rightarrow> arg \<Rightarrow> 's option_call"
  isink_get_option :: "aoo_opt \<Rightarrow> arg \<Rightarrow> 's option_call"
  isink_set_sourceoption :: "endpoint \<Rightarrow> int32 \<Rightarrow> aoo_opt \<Rightarrow> arg \<Rightarrow> 's option_call"
  isink_get_sourceoption :: "endpoint \<Rightarrow> int32 \<Rightarrow> aoo_opt \<Rightarrow> arg \<Rightarrow> 's option_call"

definition isink_reset :: "'s isink \<Rightarrow> 's \<Rightarrow> int32 \<times> 's" where
  "isink_reset x s = by_value (isink_set_option x aoo_opt_reset AOO_ARGNULL s)"

definition isink_set_buffersize :: "'s isink \<Rightarrow> int32 \<Rightarrow> 's \<Rightarrow> int32 \<times> 's" where
  "isink_set_buffersize x n s =
     by_value (isink_set_option x aoo_opt_buffersize (AOO_ARG_int32 n) s)"

definition isink_get_buffersize :: "'s isink \<Rightarrow> int32 \<Rightarrow> 's option_call" where
  "isink_get_buffersize x n = isink_get_option x aoo_opt_buffersize (AOO_ARG_int32 n)"

definition isink_set_timefilter_bandwidth ::
  "'s isink \<Rightarrow> c_float \<Rightarrow> 's \<Rightarrow> int32 \<times> 's" where
  "isink_set_timefilter_bandwidth x f s =
     by_value (isink_set_option x aoo_opt_timefilter_bandwidth (AOO_ARG_float f) s)"

definition isink_get_timefilter_bandwidth :: "'s isink \<Rightarrow> c_float \<Rightarrow> 's option_call" where
  "isink_get_timefilter_bandwidth x f =
     isink_get_option x aoo_opt_timefilter_bandwidth (AOO_ARG_float f)"

definition isink_set_packetsize :: "'s isink \<Rightarrow> int32 \<Rightarrow> 's \<Rightarrow> int32 \<times> 's" where
  "isink_set_packetsize x n s =
     by_value (isink_set_option x aoo_opt_packetsize (AOO_ARG_int32 n) s)"

definition isink_get_packetsize :: "'s isink \<Rightarrow> int32 \<Rightarrow> 's option_call" where
  "isink_get_packetsize x n = isink_get_option x aoo_opt_packetsize (AOO_ARG_int32 n)"

definition isink_set_ping_interval :: "'s isink \<Rightarrow> int32 \<Rightarrow> 's \<Rightarrow> int32 \<times> 's" where
  "isink_set_ping_interval x n s =
     by_value (isink_set_option x aoo_opt_ping_interval (AOO_ARG_int32 n) s)"

definition isink_get_ping_interval :: "'s isink \<Rightarrow> int32 \<Rightarrow> 's option_call" where
  "isink_get_ping_interval x n = isink_get_option x aoo_opt_ping_interval (AOO_ARG_int32 n)"

definition isink_set_resend_limit :: "'s isink \<Rightarrow> int32 \<Rightarrow> 's \<Rightarrow> int32 \<times> 's" where
  "isink_set_resend_limit x n s =
     by_value (isink_set_option x aoo_opt_resend_limit (AOO_ARG_int32 n) s)"

definition isink_get_resend_limit :: "'s isink \<Rightarrow> int32 \<Rightarrow> 's option_call" where
  "isink_get_resend_limit x n = isink_get_option x aoo_opt_resend_limit (AOO_ARG_int32 n)"

definition isink_set_resend_interval :: "'s isink \<Rightarrow> int32 \<Rightarrow> 's \<Rightarrow> int32 \<times> 's" where
  "isink_set_resend_interval x n s =
     by_value (isink_set_option x aoo_opt_resend_interval (AOO_ARG_int32 n) s)"

definition isink_get_resend_interval :: "'s isink \<Rightarrow> int32 \<Rightarrow> 's option_call" where
  "isink_get_resend_interval x n =
     isink_get_option x aoo_opt_resend_interval (AOO_ARG_int32 n)"

definition isink_set_resend_maxnumframes :: "'s isink \<Rightarrow> int32 \<Rightarrow> 's \<Rightarrow> int32 \<times> 's" where
  "isink_set_resend_maxnumframes x n s =
     by_value (isink_set_option x aoo_opt_resend_maxnumframes (AOO_ARG_int32 n) s)"

definition isink_get_resend_maxnumframes :: "'s isink \<Rightarrow> int32 \<Rightarrow> 's option_call" where
  "isink_get_resend_maxnumframes x n =
     isink_get_option x aoo_opt_resend_maxnumframes (AOO_ARG_int32 n)"

definition isink_reset_source :: "'s isink \<Rightarrow> endpoint \<Rightarrow> int32 \<Rightarrow> 's \<Rightarrow> int32 \<times> 's" where
  "isink_reset_source x ep i s =
     by_value (isink_set_sourceoption x ep i aoo_opt_reset AOO_ARGNULL s)"

definition isink_get_source_format ::
  "'s isink \<Rightarrow> endpoint \<Rightarrow> int32 \<Rightarrow> aoo_format_storage \<Rightarrow> 's option_call" where
  "isink_get_source_format x ep i f =
     isink_get_sourceoption x ep i aoo_opt_format (AOO_ARG_format_storage f)"

subsection \<open>Creation and destruction\<close>

text \<open>
  \<open>aoo_source_new\<close>, \<open>aoo_source_free\<close>, \<open>aoo_sink_new\<close> and \<open>aoo_sink_free\<close> are
  functions of the C interface (\<open>aoo.h\<close>), taken here as parameters: \<open>'p\<close> is the type
  of \<open>isource *\<close>, \<open>'q\<close> of \<open>isink *\<close>, and \<open>'w\<close> is everything those functions can
  read or change.
\<close>

record ('p, 'q, 'w) aoo_c_api =
  aoo_source_new :: "int32 \<Rightarrow> 'w \<Rightarrow> 'p \<times> 'w"
  aoo_source_free :: "'p \<Rightarrow> 'w \<Rightarrow> 'w"
  aoo_sink_new :: "int32 \<Rightarrow> 'w \<Rightarrow> 'q \<times> 'w"
  aoo_sink_free :: "'q \<Rightarrow> 'w \<Rightarrow> 'w"

definition isource_create :: "('p, 'q, 'w) aoo_c_api \<Rightarrow> int32 \<Rightarrow> 'w \<Rightarrow> 'p \<times> 'w" where
  "isource_create api i = aoo_source_new api i"

definition isource_destroy :: "('p, 'q, 'w) aoo_c_api \<Rightarrow> 'p \<Rightarrow> 'w \<Rightarrow> 'w" where
  "isource_destroy api src = aoo_source_free api src"

text \<open>\<open>isource::deleter::operator()\<close>.\<close>

definition isource_deleter :: "('p, 'q, 'w) aoo_c_api \<Rightarrow> 'p \<Rightarrow> 'w \<Rightarrow> 'w" where
  "isource_deleter api x = isource_destroy api x"

definition isink_create :: "('p, 'q, 'w) aoo_c_api \<Rightarrow> int32 \<Rightarrow> 'w \<Rightarrow> 'q \<times> 'w" where
  "isink_create api i = aoo_sink_new api i"

definition isink_destroy :: "('p, 'q, 'w) aoo_c_api \<Rightarrow> 'q \<Rightarrow> 'w \<Rightarrow> 'w" where
  "isink_destroy api sink = aoo_sink_free api sink"

text \<open>\<open>isink::deleter::operator()\<close>.\<close>

definition isink_deleter :: "('p, 'q, 'w) aoo_c_api \<Rightarrow> 'q \<Rightarrow> 'w \<Rightarrow> 'w" where
  "isink_deleter api x = isink_destroy api x"

subsection \<open>An implementation that records the calls it receives\<close>

text \<open>
  The helpers are observed through an implementation of the virtual functions whose
  state is the list of calls made so far. Every call returns 0 and leaves the object
  behind the pointer as it was.
\<close>

datatype call =
    Set_option aoo_opt arg
  | Get_option aoo_opt arg
  | Set_sinkoption endpoint int32 aoo_opt arg
  | Get_sinkoption endpoint int32 aoo_opt arg

definition record_call :: "call \<Rightarrow> arg \<Rightarrow> call list option_call" where
  "record_call c a calls = ((0, a), calls @ [c])"

definition recording_isource :: "call list isource" where
  "recording_isource =
     \<lparr>isource_set_option = (\<lambda>opt a. record_call (Set_option opt a) a),
      isource_get_option = (\<lambda>opt a. record_call (Get_option opt a) a),
      isource_set_sinkoption = (\<lambda>ep i opt a. record_call (Set_sinkoption ep i opt a) a),
      isource_get_sinkoption = (\<lambda>ep i opt a. record_call (Get_sinkoption ep i opt a) a)\<rparr>"

section \<open>The Event Queue\<close>

text \<open>
  \<open>events_available\<close> and \<open>handle_events\<close> are pure virtual in \<open>aoo.hpp\<close>, and the
  queue behind them (\<open>lfqueue.hpp\<close> and the engine that uses it) is not among the
  sources. The definitions of this section follow the specification's description of
  the Event Queue instead.
\<close>

text \<open>
  Modelled from the spec: the kinds of notification the queue carries (stream added or
  removed, format changed, loss detected, sync re-acquired); the event type of the
  engine is missing.
\<close>

datatype event_kind =
  Stream_added | Stream_removed | Format_changed | Loss_detected | Sync_reacquired

text \<open>
  Modelled from the spec: an event is a tagged record, a kind with a stream or peer id
  and an optional payload; the event type of the engine is missing.
\<close>

datatype event = Event event_kind int32 "8 word list option"

text \<open>
  Modelled from the spec: the queue of \<open>lfqueue.hpp\<close>, which is missing. It is bounded
  by a capacity, holds the queued events oldest first, and counts the events lost to
  overflow in a metric of its own.
\<close>

record 'e event_queue =
  capacity :: nat
  queued :: "'e list"
  lost_events :: nat

text \<open>Modelled from the spec: a new queue (missing: its constructor) is empty and has lost nothing.\<close>

definition new_event_queue :: "nat \<Rightarrow> 'e event_queue" where
  "new_event_queue cap = \<lparr>capacity = cap, queued = [], lost_events = 0\<rparr>"

text \<open>
  Modelled from the spec: \<open>publish(event)\<close> (missing: the queue's write operation)
  always takes the event. Below the capacity the event is appended. On overflow the
  oldest event is dropped, which is the published event itself when the capacity is 0,
  and the lost-event counter goes up by one.
\<close>

definition publish :: "'e \<Rightarrow> 'e event_queue \<Rightarrow> 'e event_queue" where
  "publish e q =
     (if length (queued q) < capacity q then q\<lparr>queued := queued q @ [e]\<rparr>
      else q\<lparr>queued := tl (queued q @ [e]), lost_events := lost_events q + 1\<rparr>)"

text \<open>
  Modelled from the spec: \<open>available()\<close> (missing: the body of \<open>events_available\<close>)
  reports the number of queued events.
\<close>

definition available :: "'e event_queue \<Rightarrow> nat" where
  "available q = length (queued q)"

text \<open>
  Modelled from the spec: \<open>drain()\<close> (missing: the body of \<open>handle_events\<close>) pops all
  currently queued events, in queue order, for dispatch to the handlers.
\<close>

definition drain :: "'e event_queue \<Rightarrow> 'e list \<times> 'e event_queue" where
  "drain q = (queued q, q\<lparr>queued := []\<rparr>)"

text \<open>
  Modelled from the spec: publishing N events is N calls of \<open>publish\<close>, one after the
  other (missing: the engine code that publishes).
\<close>

fun publish_all :: "'e list \<Rightarrow> 'e event_queue \<Rightarrow> 'e event_queue" where
  "publish_all [] q = q"
| "publish_all (e # es) q = publish_all es (publish e q)"

section \<open>Properties of the interface\<close>

lemmas isource_helper_defs =
  isource_set_format_def isource_get_format_def
  isource_set_buffersize_def isource_get_buffersize_def
  isource_set_timefilter_bandwidth_def isource_get_timefilter_bandwidth_def
  isource_set_packetsize_def isource_get_packetsize_def
  isource_set_resend_buffersize_def isource_set_resend_buffersize_ref_def
  isource_set_sink_channelonset_def isource_get_sink_channelonset_def

text \<open>
  Every helper of \<open>isource\<close> whose name starts with \<open>set_\<close>, the reference overload of
  \<open>set_resend_buffersize\<close> apart, is one call of \<open>set_option\<close> (or \<open>set_sinkoption\<close>)
  with the opcode of its name, and every \<open>get_\<close> helper is one call of \<open>get_option\<close>
  (or \<open>get_sinkoption\<close>) with that opcode.
\<close>

lemma isource_helpers_recorded:
  "snd (isource_set_format recording_isource f []) = [Set_option aoo_opt_format (AOO_ARG_format f)]"
  "snd (isource_get_format recording_isource fs []) =
     [Get_option aoo_opt_format (AOO_ARG_format_storage fs)]"
  "snd (isource_set_buffersize recording_isource n []) =
     [Set_option aoo_opt_buffersize (AOO_ARG_int32 n)]"
  "snd (isource_get_buffersize recording_isource n []) =
     [Get_option aoo_opt_buffersize (AOO_ARG_int32 n)]"
  "snd (isource_set_timefilter_bandwidth recording_isource bw []) =
     [Set_option aoo_opt_timefilter_bandwidth (AOO_ARG_float bw)]"
  "snd (isource_get_timefilter_bandwidth recording_isource bw []) =
     [Get_option aoo_opt_timefilter_bandwidth (AOO_ARG_float bw)]"
  "snd (isource_set_packetsize recording_isource n []) =
     [Set_option aoo_opt_packetsize (AOO_ARG_int32 n)]"
  "snd (isource_get_packetsize recording_isource n []) =
     [Get_option aoo_opt_packetsize (AOO_ARG_int32 n)]"
  "snd (isource_set_resend_buffersize recording_isource n []) =
     [Set_option aoo_opt_resend_buffersize (AOO_ARG_int32 n)]"
  "snd (isource_set_sink_channelonset recording_isource ep i n []) =
     [Set_sinkoption ep i aoo_opt_channelonset (AOO_ARG_int32 n)]"
  "snd (isource_get_sink_channelonset recording_isource ep i n []) =
     [Get_sinkoption ep i aoo_opt_channelonset (AOO_ARG_int32 n)]"
  by (simp_all add: isource_helper_defs recording_isource_def record_call_def by_value_def)

text \<open>
  For every implementation, the reference overload of \<open>set_resend_buffersize\<close> is
  \<open>get_option\<close> on the resend buffer size, and so never changes more than \<open>get_option\<close>
  does.
\<close>

lemma isource_set_resend_buffersize_ref_is_get:
  "isource_set_resend_buffersize_ref x n s =
     isource_get_option x aoo_opt_resend_buffersize (AOO_ARG_int32 n) s"
  by (simp add: isource_set_resend_buffersize_ref_def)

text \<open>
  Claim C1: every \<open>set_*\<close> helper invokes the set-option mechanism with the opcode of
  its name, and every \<open>get_*\<close> helper the get-option mechanism; in particular every
  overload named \<open>set_resend_buffersize\<close> performs a set of the resend buffer size.
  The code does not do this: called with 5 on the recording implementation, the overload
  \<open>set_resend_buffersize(int32_t&)\<close> makes exactly one call, and that call is
  \<open>get_option\<close>; no \<open>set_option\<close> call is made. The by-value overload, on the same
  input, makes the \<open>set_option\<close> call that the name states.
\<close>

theorem isource_set_resend_buffersize_ref_calls_get_option:
  "snd (isource_set_resend_buffersize_ref recording_isource 5 []) =
     [Get_option aoo_opt_resend_buffersize (AOO_ARG_int32 5)] \<and>
   snd (isource_set_resend_buffersize recording_isource 5 []) =
     [Set_option aoo_opt_resend_buffersize (AOO_ARG_int32 5)] \<and>
   snd (isource_set_resend_buffersize_ref recording_isource 5 []) \<noteq>
     snd (isource_set_resend_buffersize recording_isource 5 [])"
  by (simp add: isource_set_resend_buffersize_ref_def isource_set_resend_buffersize_def
      recording_isource_def record_call_def by_value_def)

text \<open>
  Claim C10: \<open>isource::create(id)\<close> returns exactly the result of \<open>aoo_source_new(id)\<close>
  and \<open>isink::create(id)\<close> exactly that of \<open>aoo_sink_new(id)\<close>; the deleter of each
  pointer type destroys an instance through the static \<open>destroy\<close> function, whose whole
  effect is that of \<open>aoo_source_free\<close>, respectively \<open>aoo_sink_free\<close>. This holds for
  every implementation of the four C functions, every id, every pointer and every state
  of the world.
\<close>

theorem create_and_deleter_are_the_c_api:
  "isource_create api i w = aoo_source_new api i w \<and>
   isource_deleter api x w = isource_destroy api x w \<and>
   isource_destroy api x w = aoo_source_free api x w \<and>
   isink_create api i w = aoo_sink_new api i w \<and>
   isink_deleter api y w = isink_destroy api y w \<and>
   isink_destroy api y w = aoo_sink_free api y w"
  by (simp add: isource_create_def isource_deleter_def isource_destroy_def
      isink_create_def isink_deleter_def isink_destroy_def)

section \<open>Properties of the Event Queue\<close>

lemma publish_capacity: "capacity (publish e q) = capacity q"
  by (simp add: publish_def)

lemma publish_all_capacity: "capacity (publish_all es q) = capacity q"
  by (induction es arbitrary: q) (simp_all add: publish_capacity)

text \<open>A queue within its capacity stays within it, whatever is published.\<close>

lemma publish_bounded:
  "length (queued q) \<le> capacity q \<Longrightarrow> length (queued (publish e q)) \<le> capacity q"
  by (simp add: publish_def)

lemma publish_all_bounded:
  "length (queued q) \<le> capacity q \<Longrightarrow> length (queued (publish_all es q)) \<le> capacity q"
proof (induction es arbitrary: q)
  case Nil
  then show ?case by simp
next
  case (Cons e es)
  from Cons.prems have "length (queued (publish e q)) \<le> capacity (publish e q)"
    by (simp add: publish_def)
  from Cons.IH [OF this] show ?case by (simp add: publish_capacity)
qed

text \<open>
  Publishing \<open>es\<close> to a queue within its capacity: with \<open>k\<close> the number of events by
  which the old content and \<open>es\<close> together exceed the capacity, the queue then holds
  all of them but the \<open>k\<close> oldest, and has counted \<open>k\<close> more lost events.
\<close>

lemma publish_all_queued_lost:
  "length (queued q) \<le> capacity q \<Longrightarrow>
   queued (publish_all es q) =
     drop (length (queued q) + length es - capacity q) (queued q @ es) \<and>
   lost_events (publish_all es q) =
     lost_events q + (length (queued q) + length es - capacity q)"
proof (induction es arbitrary: q)
  case Nil
  then show ?case by simp
next
  case (Cons e es)
  have b: "length (queued (publish e q)) \<le> capacity (publish e q)"
    using Cons.prems by (simp add: publish_def)
  show ?case
  proof (cases "length (queued q) < capacity q")
    case True
    then have p: "publish e q = q\<lparr>queued := queued q @ [e]\<rparr>"
      by (simp add: publish_def)
    show ?thesis using Cons.IH [OF b] by (simp add: p)
  next
    case False
    then have full: "length (queued q) = capacity q"
      using Cons.prems by simp
    have p: "publish e q =
        q\<lparr>queued := tl (queued q @ [e]), lost_events := lost_events q + 1\<rparr>"
      using False by (simp add: publish_def)
    have "drop (Suc (length es)) (queued q @ e # es) =
        drop (length es) (tl (queued q @ [e]) @ es)"
      by (cases "queued q") (simp_all add: drop_Suc)
    then show ?thesis using Cons.IH [OF b] full by (simp add: p)
  qed
qed

text \<open>
  Claim C6: \<open>publish\<close> never fails (it is a total function whose result is the queue
  with the event taken; blocking has no counterpart in the model). Publishing N events
  to an empty queue and then draining once yields exactly the N published events, in
  order, with none twice and none missing, whenever N is at most the capacity, and the
  lost-event counter does not move. Publishing more than the capacity drops the oldest
  events (the drain yields the newest \<open>capacity\<close> of them) and raises the lost-event
  counter by exactly the number of events beyond the capacity. The drain leaves the
  queue empty and the counter as it was.
\<close>

theorem event_queue_publish_then_drain:
  assumes "queued q = []"
  shows "(length es \<le> capacity q \<longrightarrow>
            fst (drain (publish_all es q)) = es \<and>
            lost_events (publish_all es q) = lost_events q) \<and>
         (capacity q < length es \<longrightarrow>
            fst (drain (publish_all es q)) = drop (length es - capacity q) es \<and>
            lost_events (publish_all es q) = lost_events q + (length es - capacity q)) \<and>
         available (snd (drain (publish_all es q))) = 0 \<and>
         lost_events (snd (drain (publish_all es q))) = lost_events (publish_all es q)"
  using publish_all_queued_lost [of q es] assms
  by (simp add: drain_def available_def)

text \<open>
  The theorem at a new queue of capacity 2: two events (N equal to the capacity) are
  all drained and none is lost; of three events the oldest is dropped and counted.
\<close>

theorem event_queue_publish_then_drain_witness:
  "fst (drain (publish_all [Event Stream_added 1 None, Event Loss_detected 1 None]
      (new_event_queue 2))) =
     [Event Stream_added 1 None, Event Loss_detected 1 None] \<and>
   lost_events (publish_all [Event Stream_added 1 None, Event Loss_detected 1 None]
      (new_event_queue 2)) = 0 \<and>
   fst (drain (publish_all
      [Event Stream_added 1 None, Event Loss_detected 1 None, Event Stream_removed 1 None]
      (new_event_queue 2))) =
     [Event Loss_detected 1 None, Event Stream_removed 1 None] \<and>
   lost_events (publish_all
      [Event Stream_added 1 None, Event Loss_detected 1 None, Event Stream_removed 1 None]
      (new_event_queue 2)) = 1"
  using event_queue_publish_then_drain
          [of "new_event_queue 2" "[Event Stream_added 1 None, Event Loss_detected 1 None]"]
        event_queue_publish_then_drain
          [of "new_event_queue 2"
              "[Event Stream_added 1 None, Event Loss_detected 1 None,
                Event Stream_removed 1 None]"]
  by (simp add: new_event_queue_def)

end
